theory Spec2Isabelle
  imports Complex_Main "HOL-Library.Word"
begin

section \<open>Python values used by \<open>main.py\<close>\<close>

text \<open>
  A Python \<open>str\<close> is a sequence of Unicode code points, so it is modelled as a list of
  natural numbers; \<open>lit\<close> turns an ASCII literal into that form. A \<open>bytes\<close> object is a
  list of 8-bit words. An exception is represented by the text \<open>str(e)\<close> gives for it,
  which is all the program ever looks at.
\<close>

type_synonym pystr = "nat list"
type_synonym bytes = "8 word list"
type_synonym exn = pystr

definition lit :: "string \<Rightarrow> pystr" where
  "lit s = map of_char s"

text \<open>\<open>str.isspace\<close> for one code point: the white space table of CPython.\<close>

definition isspace :: "nat \<Rightarrow> bool" where
  "isspace c =
     ((9 \<le> c \<and> c \<le> 13) \<or> (28 \<le> c \<and> c \<le> 32) \<or> c = 133 \<or> c = 160 \<or> c = 5760
      \<or> (8192 \<le> c \<and> c \<le> 8202) \<or> c = 8232 \<or> c = 8233 \<or> c = 8239 \<or> c = 8287
      \<or> c = 12288)"

text \<open>\<open>s.strip()\<close>: white space is dropped from the left end, then from the right end.\<close>

definition strip :: "pystr \<Rightarrow> pystr" where
  "strip s = rev (dropWhile isspace (rev (dropWhile isspace s)))"

text \<open>\<open>s.startswith(p)\<close>.\<close>

definition startswith :: "pystr \<Rightarrow> pystr \<Rightarrow> bool" where
  "startswith s p = (take (length p) s = p)"

text \<open>\<open>str(n)\<close> for an \<open>int\<close>: decimal digits, with a minus sign for a negative number.\<close>

fun str_nat :: "nat \<Rightarrow> pystr" where
  "str_nat n = (if n < 10 then [48 + n] else str_nat (n div 10) @ [48 + n mod 10])"

declare str_nat.simps [simp del]

definition str_int :: "int \<Rightarrow> pystr" where
  "str_int i = (if i < 0 then 45 # str_nat (nat (- i)) else str_nat (nat i))"

text \<open>
  \<open>int(x)\<close> for a finite \<open>float\<close> \<open>x\<close> truncates towards zero. Every finite float is a
  real number and the truncation is exact, so the clock reading is taken as a real.
\<close>

definition py_int :: "real \<Rightarrow> int" where
  "py_int x = (if 0 \<le> x then \<lfloor>x\<rfloor> else \<lceil>x\<rceil>)"

text \<open>\<open>os.path.join(a, b)\<close> for two components, as \<open>posixpath\<close> computes it.\<close>

definition os_path_join :: "pystr \<Rightarrow> pystr \<Rightarrow> pystr" where
  "os_path_join a b =
     (if startswith b (lit ''/'') then b
      else if a = [] \<or> last a = 47 then a @ b
      else a @ lit ''/'' @ b)"

section \<open>The state of a \<open>DictationApp\<close>\<close>

type_synonym pa_stream = nat

text \<open>The instance \<open>whisper.load_model(size)\<close> returns, known by the size it was loaded for.\<close>

datatype whisper_model = WhisperModel pystr

text \<open>A \<open>messagebox\<close> call, with its title and message.\<close>

datatype dialog = showwarning pystr pystr | showerror pystr pystr

text \<open>The target of a \<open>threading.Thread(...).start()\<close>.\<close>

datatype thread_target = LoadModel | RecordAudio | ProcessAudio

text \<open>A call into PyAudio that opens or closes a capture stream.\<close>

datatype pa_call = pa_open | pa_stop_stream pa_stream | pa_close pa_stream

text \<open>What \<open>wave\<close> is given for one file: the three header settings and the frame bytes.\<close>

record wav_file =
  nchannels :: nat
  sampwidth :: nat
  framerate :: nat
  wav_data :: bytes

text \<open>
  The fields of \<open>__init__\<close> that the pipeline reads or writes, the widgets it updates
  (\<open>record_btn\<close>, \<open>status_label\<close> and \<open>text_area\<close> by their text, the two
  \<open>StringVar\<close>s by their value), and a trace of the effects on the outside: message
  boxes shown, lines printed, threads started, \<open>root.after(100, ...)\<close> calls made,
  PyAudio calls made, and the files under \<open>recordings_dir\<close>.
\<close>

record app =
  recording :: bool
  frames :: "bytes list"
  stream :: "pa_stream option"
  model :: "whisper_model option"
  model_size :: pystr
  language :: pystr
  transcription_queue :: "pystr list"
  model_var :: pystr
  language_var :: pystr
  record_btn :: pystr
  status_label :: pystr
  text_area :: pystr
  dialogs :: "dialog list"
  stdout :: "pystr list"
  threads :: "thread_target list"
  scheduled :: nat
  pa_calls :: "pa_call list"
  files :: "pystr \<rightharpoonup> wav_file"

text \<open>Audio settings: assigned once in \<open>__init__\<close> and never again.\<close>

definition channels :: nat where "channels = 1"
definition rate :: nat where "rate = 16000"
definition chunk :: nat where "chunk = 1024"

text \<open>\<open>self.audio.get_sample_size(pyaudio.paInt16)\<close>: two bytes a sample.\<close>

definition sample_size :: nat where "sample_size = 2"

definition recordings_dir :: pystr where "recordings_dir = lit ''recordings''"

definition start_label :: pystr where
  "start_label = 127908 # lit '' Start Recording''"

definition stop_label :: pystr where
  "stop_label = 9209 # 65039 # lit '' Stop Recording''"

section \<open>Model loading and selection\<close>

definition load_whisper_model :: "app \<Rightarrow> app" where
  "load_whisper_model s = s\<lparr>threads := threads s @ [LoadModel]\<rparr>"

text \<open>
  The body of the loader thread, \<open>load_model\<close>. Its argument is what
  \<open>whisper.load_model\<close> does: \<open>None\<close> when it returns, \<open>Some e\<close> when it raises \<open>e\<close>.
\<close>

definition load_model :: "exn option \<Rightarrow> app \<Rightarrow> app" where
  "load_model outcome s =
     (let s1 = s\<lparr>status_label := lit ''Loading '' @ model_size s @ lit '' model...''\<rparr>
      in case outcome of
           None \<Rightarrow> s1\<lparr>model := Some (WhisperModel (model_size s1)),
                      status_label := lit ''Model loaded - Ready to record''\<rparr>
         | Some e \<Rightarrow> s1\<lparr>dialogs := dialogs s1 @
                          [showerror (lit ''Error'') (lit ''Failed to load model: '' @ e)],
                        status_label := lit ''Model loading failed''\<rparr>)"

definition on_model_change :: "app \<Rightarrow> app" where
  "on_model_change s =
     (let new_model = model_var s
      in if new_model \<noteq> model_size s
         then load_whisper_model (s\<lparr>model_size := new_model, model := None\<rparr>)
         else s)"

text \<open>
  Picking an entry of the model combo box (\<open>setup_ui\<close>): the box writes the entry to its
  \<open>textvariable\<close>, \<open>model_var\<close>, and fires the event bound to \<open>on_model_change\<close>.
\<close>

definition select_model :: "pystr \<Rightarrow> app \<Rightarrow> app" where
  "select_model v s = on_model_change (s\<lparr>model_var := v\<rparr>)"

definition on_language_change :: "app \<Rightarrow> app" where
  "on_language_change s = s\<lparr>language := language_var s\<rparr>"

section \<open>Recording\<close>

text \<open>
  \<open>start_recording\<close>. Its first argument is what \<open>self.audio.open(...)\<close> does: \<open>Inr st\<close>
  when it returns the stream \<open>st\<close>, \<open>Inl e\<close> when it raises \<open>e\<close>.
\<close>

definition start_recording :: "exn + pa_stream \<Rightarrow> app \<Rightarrow> app" where
  "start_recording open_res s =
     (if model s = None
      then s\<lparr>dialogs := dialogs s @
                [showwarning (lit ''Warning'') (lit ''Please wait for the model to load first.'')]\<rparr>
      else
        (let s1 = s\<lparr>frames := [], pa_calls := pa_calls s @ [pa_open]\<rparr>
         in case open_res of
              Inr st \<Rightarrow>
                s1\<lparr>stream := Some st,
                   recording := True,
                   record_btn := stop_label,
                   status_label := lit ''Recording... Click stop when finished'',
                   threads := threads s1 @ [RecordAudio]\<rparr>
            | Inl e \<Rightarrow>
                s1\<lparr>dialogs := dialogs s1 @
                     [showerror (lit ''Error'') (lit ''Failed to start recording: '' @ e)]\<rparr>))"

text \<open>
  The capture thread runs \<open>record_audio\<close> while the main thread goes on, and nothing
  ever waits for it. Between two steps of other threads it is at one of two places: inside
  the blocking \<open>self.stream.read(self.chunk)\<close>, or past the end of the loop.
\<close>

datatype loop_point = in_read | exited

text \<open>
  The body of the loop, from the moment the read ends: \<open>Inr data\<close> is a read that returns
  a block, \<open>Inl e\<close> one that raises. The result says whether the loop goes back to its
  test (\<open>True\<close>) or leaves by \<open>break\<close> (\<open>False\<close>).
\<close>

definition loop_body :: "exn + bytes \<Rightarrow> app \<Rightarrow> bool \<times> app" where
  "loop_body r s =
     (case r of
        Inr data \<Rightarrow> (True, s\<lparr>frames := frames s @ [data]\<rparr>)
      | Inl e \<Rightarrow> (False, s\<lparr>stdout := stdout s @ [lit ''Recording error: '' @ e]\<rparr>))"

text \<open>
  \<open>record_audio\<close> from the test of \<open>while self.recording\<close>, with no step of another
  thread in between: the list holds what the reads that end in this stretch do. The flag
  is tested before each read and nowhere else. When the reads of the list are used up
  and the flag is still set, the thread is inside its next read.
\<close>

fun record_audio :: "(exn + bytes) list \<Rightarrow> app \<Rightarrow> loop_point \<times> app" where
  "record_audio [] s = (if \<not> recording s then exited else in_read, s)"
| "record_audio (r # rs) s =
     (if \<not> recording s then (exited, s)
      else case loop_body r s of
             (True, s') \<Rightarrow> record_audio rs s'
           | (False, s') \<Rightarrow> (exited, s'))"

text \<open>
  The capture thread taken up again while it is inside a read, after other threads have
  run: that read ends as \<open>r\<close>, whatever the flag has become in the meantime, and the loop
  goes on from its test with the reads \<open>rs\<close>.
\<close>

definition read_in_flight :: "exn + bytes \<Rightarrow> (exn + bytes) list \<Rightarrow> app \<Rightarrow> loop_point \<times> app" where
  "read_in_flight r rs s =
     (case loop_body r s of
        (True, s') \<Rightarrow> record_audio rs s'
      | (False, s') \<Rightarrow> (exited, s'))"

text \<open>
  \<open>stop_recording\<close>. The first two arguments are what \<open>stop_stream()\<close> and \<open>close()\<close> do
  (\<open>Some e\<close> raises \<open>e\<close>). Nothing in the method catches an exception, so one that is
  raised leaves the method before the worker thread is started: the result is the
  exception that escaped, if any, and the state reached.
\<close>

definition stop_recording :: "exn option \<Rightarrow> exn option \<Rightarrow> app \<Rightarrow> exn option \<times> app" where
  "stop_recording stop_res close_res s =
     (let s1 = s\<lparr>recording := False,
                 record_btn := start_label,
                 status_label := lit ''Processing audio...''\<rparr>
      in case stream s1 of
           None \<Rightarrow> (None, s1\<lparr>threads := threads s1 @ [ProcessAudio]\<rparr>)
         | Some st \<Rightarrow>
             (let s2 = s1\<lparr>pa_calls := pa_calls s1 @ [pa_stop_stream st]\<rparr>
              in case stop_res of
                   Some e \<Rightarrow> (Some e, s2)
                 | None \<Rightarrow>
                     (let s3 = s2\<lparr>pa_calls := pa_calls s2 @ [pa_close st]\<rparr>
                      in case close_res of
                           Some e \<Rightarrow> (Some e, s3)
                         | None \<Rightarrow> (None, s3\<lparr>threads := threads s3 @ [ProcessAudio]\<rparr>))))"

definition toggle_recording ::
  "exn + pa_stream \<Rightarrow> exn option \<Rightarrow> exn option \<Rightarrow> app \<Rightarrow> exn option \<times> app" where
  "toggle_recording open_res stop_res close_res s =
     (if \<not> recording s then (None, start_recording open_res s)
      else stop_recording stop_res close_res s)"

section \<open>Transcription\<close>

text \<open>
  What the file system does to the worker: \<open>os.makedirs\<close> raises, \<open>wave.open\<close> raises,
  writing raises after the file was opened (leaving the bytes given), or all is written.
\<close>

datatype artifact_io = makedirs_fails exn | open_fails exn | write_fails exn bytes | io_ok

definition temp_filename :: "real \<Rightarrow> pystr" where
  "temp_filename now = os_path_join recordings_dir (str_int (py_int now) @ lit ''.wav'')"

definition wav_of :: "bytes \<Rightarrow> wav_file" where
  "wav_of d = \<lparr>nchannels = channels, sampwidth = sample_size, framerate = rate, wav_data = d\<rparr>"


definition attribute_error :: exn where
  "attribute_error = lit [CHR 0x27] @ lit ''NoneType'' @ lit [CHR 0x27] @
     lit '' object has no attribute '' @ lit [CHR 0x27] @ lit ''transcribe'' @ lit [CHR 0x27]"

text \<open>
  The \<open>try\<close> block of \<open>process_audio\<close>: \<open>now\<close> is \<open>datetime.now().timestamp()\<close>, \<open>io\<close> what
  the file system does, \<open>transcribed\<close> what \<open>self.model.transcribe\<close> does (\<open>Inr text\<close>
  returns \<open>{"text": text}\<close>, \<open>Inl e\<close> raises). The result is the exception raised in the
  block, if any, and the state reached.
\<close>

definition process_audio_try ::
  "real \<Rightarrow> artifact_io \<Rightarrow> exn + pystr \<Rightarrow> app \<Rightarrow> exn option \<times> app" where
  "process_audio_try now io transcribed s =
     (case io of
        makedirs_fails e \<Rightarrow> (Some e, s)
      | open_fails e \<Rightarrow> (Some e, s)
      | write_fails e partial \<Rightarrow>
          (Some e, s\<lparr>files := (files s)(temp_filename now \<mapsto> wav_of partial)\<rparr>)
      | io_ok \<Rightarrow>
          (let s1 = s\<lparr>files := (files s)(temp_filename now \<mapsto> wav_of (concat (frames s)))\<rparr>
           in case model s1 of
                None \<Rightarrow> (Some attribute_error, s1)
              | Some m \<Rightarrow>
                  (case transcribed of
                     Inl e \<Rightarrow> (Some e, s1)
                   | Inr text \<Rightarrow>
                       (let transcription = strip text
                        in (None, s1\<lparr>transcription_queue :=
                                       transcription_queue s1 @ [transcription]\<rparr>)))))"

definition process_audio :: "real \<Rightarrow> artifact_io \<Rightarrow> exn + pystr \<Rightarrow> app \<Rightarrow> app" where
  "process_audio now io transcribed s =
     (case process_audio_try now io transcribed s of
        (None, s') \<Rightarrow> s'
      | (Some e, s') \<Rightarrow>
          s'\<lparr>stdout := stdout s' @ [e],
             transcription_queue := transcription_queue s' @ [lit ''Error: '' @ e]\<rparr>)"

section \<open>The polling consumer\<close>

text \<open>
  The body of the \<open>while True\<close> loop of \<open>check_transcription_queue\<close>, after
  \<open>get_nowait()\<close> has returned \<open>transcription\<close>. \<open>text_area.get("1.0", tk.END)\<close> is the
  text of the widget followed by the newline Tk ends it with.
\<close>

definition apply_transcription :: "pystr \<Rightarrow> app \<Rightarrow> app" where
  "apply_transcription transcription s =
     (if startswith transcription (lit ''Error:'')
      then s\<lparr>dialogs := dialogs s @ [showerror (lit ''Transcription Error'') transcription],
             status_label := lit ''Transcription failed''\<rparr>
      else
        (let current_text = strip (text_area s @ [10])
         in (if current_text \<noteq> []
             then s\<lparr>text_area := text_area s @ [10, 10] @ transcription\<rparr>
             else s\<lparr>text_area := text_area s @ transcription\<rparr>)
            \<lparr>status_label := lit ''Transcription complete - Ready for next recording''\<rparr>))"

text \<open>
  The loop: \<open>get_nowait()\<close> takes the head of the queue, or raises \<open>queue.Empty\<close> on an
  empty queue, which ends the loop.
\<close>

function drain :: "app \<Rightarrow> app" where
  "drain s =
     (case transcription_queue s of
        [] \<Rightarrow> s
      | transcription # rest \<Rightarrow>
          drain (apply_transcription transcription (s\<lparr>transcription_queue := rest\<rparr>)))"
  by pat_completeness auto
termination
  by (relation "measure (\<lambda>s. length (transcription_queue s))")
     (auto simp: apply_transcription_def Let_def)

declare drain.simps [simp del]

definition check_transcription_queue :: "app \<Rightarrow> app" where
  "check_transcription_queue s = (let s' = drain s in s'\<lparr>scheduled := scheduled s' + 1\<rparr>)"

section \<open>Start-up and sample states\<close>

text \<open>The state \<open>__init__\<close> leaves: the loader thread started, the first poll scheduled.\<close>

definition init :: app where
  "init =
     \<lparr>recording = False, frames = [], stream = None, model = None,
      model_size = lit ''base'', language = lit ''af'', transcription_queue = [],
      model_var = lit ''base'', language_var = lit ''af'',
      record_btn = start_label, status_label = lit ''Ready to record'',
      text_area = [], dialogs = [], stdout = [], threads = [LoadModel], scheduled = 1,
      pa_calls = [], files = Map.empty\<rparr>"

text \<open>The application once the loader thread has finished.\<close>

definition ready :: app where
  "ready = load_model None init"

text \<open>A recording in progress: stream \<open>0\<close> open, one block of two samples captured.\<close>

definition capturing :: app where
  "capturing = snd (record_audio [Inr [1, 2, 3, 4]] (start_recording (Inr 0) ready))"

text \<open>That recording stopped: idle again, with \<open>self.stream\<close> still the closed stream.\<close>

definition idle_again :: app where
  "idle_again = snd (stop_recording None None capturing)"


text \<open>
  When the read that is in flight as the recording is stopped comes to its end: before
  the worker reads the buffer, or after.
\<close>

datatype timing = before_worker | after_worker

text \<open>
  One capture session to its end. The button starts the recording on stream \<open>st\<close>; the
  capture thread reads \<open>chunks\<close> and is inside its next read when the button stops the
  recording, the stream closing normally; the worker runs at clock reading \<open>now\<close>,
  the file written and the engine returning \<open>text\<close>; the read in flight ends as
  \<open>pending\<close>, at the time \<open>when\<close>, and the capture thread leaves its loop. When no
  recording was started, there is no capture thread and no read in flight.
\<close>

definition session ::
  "pa_stream \<Rightarrow> bytes list \<Rightarrow> exn + bytes \<Rightarrow> timing \<Rightarrow> real \<Rightarrow> pystr \<Rightarrow> app \<Rightarrow> app" where
  "session st chunks pending when now text s =
     (case record_audio (map Inr chunks) (start_recording (Inr st) s) of
        (exited, s1) \<Rightarrow>
          process_audio now io_ok (Inr text) (snd (stop_recording None None s1))
      | (in_read, s1) \<Rightarrow>
          (let s2 = snd (stop_recording None None s1)
           in case when of
                before_worker \<Rightarrow>
                  process_audio now io_ok (Inr text) (snd (read_in_flight pending [] s2))
              | after_worker \<Rightarrow>
                  snd (read_in_flight pending [] (process_audio now io_ok (Inr text) s2))))"

section \<open>Facts about the sample states and the worker\<close>

lemma ready_eq:
  "ready = init\<lparr>model := Some (WhisperModel (lit ''base'')),
                 status_label := lit ''Model loaded - Ready to record''\<rparr>"
  by (simp add: ready_def load_model_def init_def)

lemma capturing_eq:
  "capturing = ready\<lparr>frames := [[1, 2, 3, 4]], pa_calls := [pa_open], stream := Some 0,
      recording := True, record_btn := stop_label,
      status_label := lit ''Recording... Click stop when finished'',
      threads := [LoadModel, RecordAudio]\<rparr>"
  by (simp add: capturing_def start_recording_def loop_body_def ready_eq init_def)

lemma idle_again_eq:
  "idle_again = capturing\<lparr>recording := False, record_btn := start_label,
      status_label := lit ''Processing audio...'',
      pa_calls := [pa_open, pa_stop_stream 0, pa_close 0],
      threads := [LoadModel, RecordAudio, ProcessAudio]\<rparr>"
  by (simp add: idle_again_def stop_recording_def capturing_eq ready_eq init_def)


lemma process_audio_pushes_one:
  "length (transcription_queue (process_audio now io tr s)) = Suc (length (transcription_queue s))"
  by (simp add: process_audio_def process_audio_try_def Let_def
           split: artifact_io.splits option.splits sum.splits)

section \<open>Facts about \<open>str\<close> of a number and the file name\<close>

lemma str_nat_small: "n < 10 \<Longrightarrow> str_nat n = [48 + n]"
  by (simp add: str_nat.simps)

lemma str_nat_big: "10 \<le> n \<Longrightarrow> str_nat n = str_nat (n div 10) @ [48 + n mod 10]"
  by (subst str_nat.simps) simp

lemma str_nat_nonempty: "str_nat n \<noteq> []"
  by (subst str_nat.simps) simp

lemma str_nat_digits: "c \<in> set (str_nat n) \<Longrightarrow> 48 \<le> c \<and> c \<le> 57"
proof (induction n rule: str_nat.induct)
  case (1 n)
  show ?case
  proof (cases "n < 10")
    case True
    with "1.prems" show ?thesis by (simp add: str_nat_small)
  next
    case False
    with "1.prems" have "c \<in> set (str_nat (n div 10)) \<or> c = 48 + n mod 10"
      by (auto simp: str_nat_big)
    then show ?thesis
    proof
      assume "c \<in> set (str_nat (n div 10))"
      with False "1.IH" show ?thesis by simp
    next
      assume "c = 48 + n mod 10"
      moreover have "n mod 10 < 10" by simp
      ultimately show ?thesis by linarith
    qed
  qed
qed

lemma str_nat_inj: "str_nat n = str_nat m \<Longrightarrow> n = m"
proof (induction n arbitrary: m rule: str_nat.induct)
  case (1 n)
  show ?case
  proof (cases "n < 10")
    case n_small: True
    show ?thesis
    proof (cases "m < 10")
      case True
      with n_small "1.prems" show ?thesis by (simp add: str_nat_small)
    next
      case False
      with n_small "1.prems" have "[48 + n] = str_nat (m div 10) @ [48 + m mod 10]"
        by (simp add: str_nat_small str_nat_big)
      then have "str_nat (m div 10) = []" by (cases "str_nat (m div 10)") auto
      then show ?thesis by (simp add: str_nat_nonempty)
    qed
  next
    case n_big: False
    show ?thesis
    proof (cases "m < 10")
      case True
      with n_big "1.prems" have "str_nat (n div 10) @ [48 + n mod 10] = [48 + m]"
        by (simp add: str_nat_small str_nat_big)
      then have "str_nat (n div 10) = []" by (cases "str_nat (n div 10)") auto
      then show ?thesis by (simp add: str_nat_nonempty)
    next
      case False
      with n_big "1.prems"
      have "str_nat (n div 10) @ [48 + n mod 10] = str_nat (m div 10) @ [48 + m mod 10]"
        by (simp add: str_nat_big)
      then have a: "str_nat (n div 10) = str_nat (m div 10)" and b: "n mod 10 = m mod 10"
        by simp_all
      from a n_big "1.IH" have "n div 10 = m div 10" by simp
      with b show ?thesis by (metis div_mult_mod_eq)
    qed
  qed
qed

lemma str_int_inj: "str_int i = str_int j \<Longrightarrow> i = j"
proof -
  assume eq: "str_int i = str_int j"
  have no_minus: "\<And>n. hd (str_nat n) \<noteq> 45"
  proof -
    fix n
    have "hd (str_nat n) \<in> set (str_nat n)" by (simp add: str_nat_nonempty)
    then have "48 \<le> hd (str_nat n)" using str_nat_digits by blast
    then show "hd (str_nat n) \<noteq> 45" by simp
  qed
  show ?thesis
  proof (cases "i < 0")
    case i_neg: True
    show ?thesis
    proof (cases "j < 0")
      case True
      with i_neg eq have "str_nat (nat (- i)) = str_nat (nat (- j))" by (simp add: str_int_def)
      then have "nat (- i) = nat (- j)" by (rule str_nat_inj)
      with i_neg True show ?thesis by simp
    next
      case False
      with i_neg eq have "45 # str_nat (nat (- i)) = str_nat (nat j)" by (simp add: str_int_def)
      then have "hd (str_nat (nat j)) = 45" by (metis list.sel(1))
      with no_minus show ?thesis by blast
    qed
  next
    case i_pos: False
    show ?thesis
    proof (cases "j < 0")
      case True
      with i_pos eq have "str_nat (nat i) = 45 # str_nat (nat (- j))" by (simp add: str_int_def)
      then have "hd (str_nat (nat i)) = 45" by simp
      with no_minus show ?thesis by blast
    next
      case False
      with i_pos eq have "str_nat (nat i) = str_nat (nat j)" by (simp add: str_int_def)
      then have "nat i = nat j" by (rule str_nat_inj)
      with i_pos False show ?thesis by simp
    qed
  qed
qed

lemma str_int_first: "hd (str_int i) \<noteq> 47 \<and> str_int i \<noteq> []"
proof (cases "i < 0")
  case True
  then show ?thesis by (simp add: str_int_def)
next
  case False
  have "hd (str_nat (nat i)) \<in> set (str_nat (nat i))" by (simp add: str_nat_nonempty)
  then have "48 \<le> hd (str_nat (nat i))" using str_nat_digits by blast
  with False show ?thesis by (simp add: str_int_def str_nat_nonempty)
qed

lemma temp_filename_eq:
  "temp_filename now = lit ''recordings/'' @ str_int (py_int now) @ lit ''.wav''"
proof -
  obtain c cs where "str_int (py_int now) = c # cs" and "c \<noteq> 47"
    using str_int_first [of "py_int now"] by (cases "str_int (py_int now)") auto
  then show ?thesis
    by (simp add: temp_filename_def os_path_join_def startswith_def recordings_dir_def lit_def)
qed

section \<open>Facts about the capture loop and the artifact\<close>

lemma record_audio_reads:
  "recording s \<Longrightarrow> record_audio (map Inr cs) s = (in_read, s\<lparr>frames := frames s @ cs\<rparr>)"
  by (induction cs arbitrary: s) (simp_all add: loop_body_def)



lemma read_in_flight_raises:
  "read_in_flight (Inl e) rs s =
     (exited, s\<lparr>stdout := stdout s @ [lit ''Recording error: '' @ e]\<rparr>)"
  by (simp add: read_in_flight_def loop_body_def)

lemma stop_recording_keeps:
  "frames (snd (stop_recording a b s)) = frames s"
  "model (snd (stop_recording a b s)) = model s"
  "\<not> recording (snd (stop_recording a b s))"
  by (simp_all add: stop_recording_def Let_def split: option.splits)

lemma process_audio_keeps:
  "frames (process_audio now io tr s) = frames s"
  "model (process_audio now io tr s) = model s"
  "recording (process_audio now io tr s) = recording s"
  by (simp_all add: process_audio_def process_audio_try_def Let_def
        split: artifact_io.splits option.splits sum.splits)

lemma artifact_written:
  "files (process_audio now io_ok tr s) (temp_filename now) = Some (wav_of (concat (frames s)))"
  by (simp add: process_audio_def process_audio_try_def Let_def split: option.splits sum.splits)


section \<open>Facts about \<open>strip\<close>, the polling loop and a whole session\<close>

lemma strip_decomposition:
  "x = takeWhile isspace x @ strip x @ rev (takeWhile isspace (rev (dropWhile isspace x)))"
proof -
  let ?u = "dropWhile isspace x"
  have "rev (takeWhile isspace (rev ?u) @ dropWhile isspace (rev ?u)) =
        rev (dropWhile isspace (rev ?u)) @ rev (takeWhile isspace (rev ?u))"
    by (rule rev_append)
  then have u: "?u = strip x @ rev (takeWhile isspace (rev ?u))"
    by (simp add: strip_def)
  have "x = takeWhile isspace x @ ?u" by simp
  with u show ?thesis by metis
qed

lemma strip_no_trailing: "dropWhile isspace (rev (strip x)) = rev (strip x)"
  by (simp add: strip_def)

lemma strip_no_leading: "dropWhile isspace (strip x) = strip x"
proof (cases "strip x")
  case Nil
  then show ?thesis by simp
next
  case (Cons c cs)
  let ?u = "dropWhile isspace x"
  have "x = takeWhile isspace x @ strip x @ rev (takeWhile isspace (rev ?u))"
    by (rule strip_decomposition)
  moreover have "x = takeWhile isspace x @ ?u" by simp
  ultimately have "?u = strip x @ rev (takeWhile isspace (rev ?u))"
    by (metis same_append_eq)
  with Cons have u: "?u = c # cs @ rev (takeWhile isspace (rev ?u))" by simp
  then have "\<not> isspace c" by (metis dropWhile_eq_Cons_conv)
  with Cons show ?thesis by simp
qed

lemma apply_transcription_queue:
  "apply_transcription t (s\<lparr>transcription_queue := q\<rparr>) =
     (apply_transcription t s)\<lparr>transcription_queue := q\<rparr>"
  by (simp add: apply_transcription_def Let_def)

lemma apply_transcription_keeps:
  "transcription_queue (apply_transcription t s) = transcription_queue s"
  "scheduled (apply_transcription t s) = scheduled s"
  by (simp_all add: apply_transcription_def Let_def)


lemma drain_fold:
  "transcription_queue s = q \<Longrightarrow>
   drain s = foldl (\<lambda>a t. apply_transcription t a) (s\<lparr>transcription_queue := []\<rparr>) q"
proof (induction q arbitrary: s)
  case Nil
  then show ?case by (subst drain.simps) simp
next
  case (Cons t q)
  let ?s' = "apply_transcription t (s\<lparr>transcription_queue := q\<rparr>)"
  have "transcription_queue ?s' = q" by (simp add: apply_transcription_keeps)
  then have "drain ?s' =
      foldl (\<lambda>a t. apply_transcription t a) (?s'\<lparr>transcription_queue := []\<rparr>) q"
    by (rule Cons.IH)
  moreover have "drain s = drain ?s'"
    using Cons.prems by (subst drain.simps) simp
  moreover have "?s'\<lparr>transcription_queue := []\<rparr> =
      apply_transcription t (s\<lparr>transcription_queue := []\<rparr>)"
    by (simp add: apply_transcription_queue)
  ultimately show ?case by simp
qed

lemma drain_is_fold:
  "drain s = foldl (\<lambda>a t. apply_transcription t a) (s\<lparr>transcription_queue := []\<rparr>)
               (transcription_queue s)"
  by (rule drain_fold) simp

lemma session_started:
  assumes "model s \<noteq> None"
  shows "record_audio (map Inr cs) (start_recording (Inr st) s) =
           (in_read, (start_recording (Inr st) s)\<lparr>frames := cs\<rparr>)"
proof -
  let ?s1 = "start_recording (Inr st) s"
  from assms have "recording ?s1" and "frames ?s1 = []"
    by (auto simp: start_recording_def Let_def)
  then show ?thesis using record_audio_reads [of ?s1 cs] by simp
qed

lemma session_raise:
  assumes "model s \<noteq> None"
  shows "files (session st cs (Inl e) w now x s) (temp_filename now) = Some (wav_of (concat cs))"
    and "frames (session st cs (Inl e) w now x s) = cs"
    and "model (session st cs (Inl e) w now x s) = model s"
proof -
  let ?s2 = "snd (stop_recording None None ((start_recording (Inr st) s)\<lparr>frames := cs\<rparr>))"
  from assms have m: "model (start_recording (Inr st) s) = model s"
    by (auto simp: start_recording_def Let_def)
  have f: "frames ?s2 = cs" and m2: "model ?s2 = model s"
    using m by (simp_all add: stop_recording_keeps)
  have unfolded: "session st cs (Inl e) w now x s =
      (case w of
         before_worker \<Rightarrow> process_audio now io_ok (Inr x) (snd (read_in_flight (Inl e) [] ?s2))
       | after_worker \<Rightarrow> snd (read_in_flight (Inl e) [] (process_audio now io_ok (Inr x) ?s2)))"
    by (simp add: session_def session_started [OF assms] Let_def)
  show "files (session st cs (Inl e) w now x s) (temp_filename now) = Some (wav_of (concat cs))"
    unfolding unfolded using f
    by (cases w) (simp_all add: read_in_flight_raises artifact_written)
  show "frames (session st cs (Inl e) w now x s) = cs"
    unfolding unfolded using f
    by (cases w) (simp_all add: read_in_flight_raises process_audio_keeps)
  show "model (session st cs (Inl e) w now x s) = model s"
    unfolding unfolded using m2
    by (cases w) (simp_all add: read_in_flight_raises process_audio_keeps)
qed


lemma temp_filename_100:
  "temp_filename (1003 / 10) = lit ''recordings/100.wav''"
  "temp_filename (1007 / 10) = lit ''recordings/100.wav''"
  by (simp_all add: temp_filename_eq str_int_def py_int_def str_nat_small str_nat_big lit_def)

section \<open>Starting and stopping\<close>

text \<open>
  C1, as the specification states it, fails: \<open>start_recording\<close> does not look at
  \<open>self.recording\<close>. Called while a recording with a loaded model is in progress, it
  empties the buffer, opens a second stream and starts a second capture thread, and
  shows no warning.
\<close>

theorem start_recording_again_counterexample:
  "recording capturing \<and> model capturing = Some (WhisperModel (lit ''base''))
   \<and> frames capturing = [[1, 2, 3, 4]] \<and> stream capturing = Some 0
   \<and> frames (start_recording (Inr 1) capturing) = []
   \<and> stream (start_recording (Inr 1) capturing) = Some 1
   \<and> pa_calls (start_recording (Inr 1) capturing) = [pa_open, pa_open]
   \<and> threads (start_recording (Inr 1) capturing) = [LoadModel, RecordAudio, RecordAudio]
   \<and> dialogs (start_recording (Inr 1) capturing) = dialogs capturing"
  by (simp add: capturing_eq ready_eq init_def start_recording_def)

text \<open>
  C1, amended. In every state in which recording is in progress, \<open>start_recording\<close>
  leaves the state Recording. It is a no-op plus a warning only when no model is
  loaded; with a model loaded it empties the buffer and calls \<open>audio.open\<close>, and when
  that returns it takes the new stream and starts another capture thread, when that
  raises it shows an error. The guard against a second start is \<open>toggle_recording\<close>,
  which in such a state calls \<open>stop_recording\<close> and never \<open>start_recording\<close>.
\<close>

theorem start_recording_while_recording:
  assumes "recording s"
  shows "recording (start_recording open_res s)
    \<and> start_recording open_res s =
        (case model s of
           None \<Rightarrow>
             s\<lparr>dialogs := dialogs s @
                 [showwarning (lit ''Warning'') (lit ''Please wait for the model to load first.'')]\<rparr>
         | Some m \<Rightarrow>
             (case open_res of
                Inr st \<Rightarrow>
                  s\<lparr>frames := [], stream := Some st, record_btn := stop_label,
                    status_label := lit ''Recording... Click stop when finished'',
                    threads := threads s @ [RecordAudio],
                    pa_calls := pa_calls s @ [pa_open]\<rparr>
              | Inl e \<Rightarrow>
                  s\<lparr>frames := [], pa_calls := pa_calls s @ [pa_open],
                    dialogs := dialogs s @
                      [showerror (lit ''Error'') (lit ''Failed to start recording: '' @ e)]\<rparr>))
    \<and> toggle_recording open_res stop_res close_res s = stop_recording stop_res close_res s"
  using assms
  by (simp add: start_recording_def toggle_recording_def Let_def split: option.splits sum.splits)

theorem start_recording_while_recording_witness:
  "recording capturing
   \<and> recording (start_recording (Inr 1) capturing)
   \<and> start_recording (Inr 1) capturing =
       capturing\<lparr>frames := [], stream := Some 1, threads := [LoadModel, RecordAudio, RecordAudio],
                 pa_calls := [pa_open, pa_open]\<rparr>
   \<and> toggle_recording (Inr 1) None None capturing = stop_recording None None capturing"
  using start_recording_while_recording [of capturing "Inr 1" None None]
  by (simp add: capturing_eq ready_eq init_def)

text \<open>
  C2, as the specification states it, fails: \<open>stop_recording\<close> does not look at
  \<open>self.recording\<close> either. In the idle application, with the model loaded and no
  recording ever made, it changes the status line and starts a transcription worker,
  and that worker puts a result on the queue.
\<close>

theorem stop_recording_idle_counterexample:
  "\<not> recording ready
   \<and> stop_recording None None ready =
       (None, ready\<lparr>status_label := lit ''Processing audio...'',
                    threads := [LoadModel, ProcessAudio]\<rparr>)
   \<and> transcription_queue ready = []
   \<and> transcription_queue
        (process_audio 100 io_ok (Inr (lit ''hallo'')) (snd (stop_recording None None ready)))
       = [lit ''hallo'']"
  by (simp add: ready_eq init_def stop_recording_def process_audio_def process_audio_try_def
        strip_def isspace_def lit_def)

text \<open>
  C2, amended. In every state in which recording is not in progress, \<open>stop_recording\<close>
  leaves the state Idle and creates no capture session: the buffer and the stream are
  kept and \<open>audio.open\<close> is not called. It is not a no-op: it sets the button and the
  status line ("Processing audio..."), calls \<open>stop_stream()\<close> and then \<open>close()\<close> on the
  stream of the last recording if there is one, and, unless one of the two raises,
  starts a transcription worker on the buffer as it is; that worker puts exactly one
  result on the queue. Nothing else changes. The guard against a stop without a
  recording is \<open>toggle_recording\<close>, which in such a state calls \<open>start_recording\<close> and
  never \<open>stop_recording\<close>.
\<close>

theorem stop_recording_while_idle:
  assumes "\<not> recording s"
  shows "\<not> recording (snd (stop_recording stop_res close_res s))
    \<and> frames (snd (stop_recording stop_res close_res s)) = frames s
    \<and> stream (snd (stop_recording stop_res close_res s)) = stream s
    \<and> count_list (pa_calls (snd (stop_recording stop_res close_res s))) pa_open
        = count_list (pa_calls s) pa_open
    \<and> status_label (snd (stop_recording stop_res close_res s)) = lit ''Processing audio...''
    \<and> fst (stop_recording stop_res close_res s) =
        (case stream s of None \<Rightarrow> None
         | Some st \<Rightarrow> (case stop_res of Some e \<Rightarrow> Some e | None \<Rightarrow> close_res))
    \<and> threads (snd (stop_recording stop_res close_res s)) =
        (if fst (stop_recording stop_res close_res s) = None
         then threads s @ [ProcessAudio] else threads s)
    \<and> length (transcription_queue
         (process_audio now io tr (snd (stop_recording stop_res close_res s))))
        = Suc (length (transcription_queue s))
    \<and> toggle_recording open_res stop_res close_res s = (None, start_recording open_res s)
    \<and> pa_calls (snd (stop_recording stop_res close_res s)) =
        pa_calls s @
          (case stream s of None \<Rightarrow> []
           | Some st \<Rightarrow>
               (case stop_res of Some e \<Rightarrow> [pa_stop_stream st]
                | None \<Rightarrow> [pa_stop_stream st, pa_close st]))
    \<and> snd (stop_recording stop_res close_res s) =
        s\<lparr>record_btn := start_label,
          status_label := lit ''Processing audio...'',
          pa_calls := pa_calls (snd (stop_recording stop_res close_res s)),
          threads := threads (snd (stop_recording stop_res close_res s))\<rparr>"
  using assms
  by (simp add: stop_recording_def toggle_recording_def process_audio_pushes_one Let_def
           split: option.splits)

theorem stop_recording_while_idle_witness:
  "\<not> recording ready
   \<and> \<not> recording (snd (stop_recording None None ready))
   \<and> frames (snd (stop_recording None None ready)) = []
   \<and> stream (snd (stop_recording None None ready)) = None
   \<and> count_list (pa_calls (snd (stop_recording None None ready))) pa_open = 0
   \<and> status_label (snd (stop_recording None None ready)) = lit ''Processing audio...''
   \<and> fst (stop_recording None None ready) = None
   \<and> threads (snd (stop_recording None None ready)) = [LoadModel, ProcessAudio]
   \<and> length (transcription_queue
        (process_audio 100 io_ok (Inr (lit ''hallo'')) (snd (stop_recording None None ready))))
       = Suc 0
   \<and> toggle_recording (Inr 0) None None ready = (None, start_recording (Inr 0) ready)
   \<and> pa_calls (snd (stop_recording None None ready)) = []
   \<and> \<not> recording idle_again \<and> stream idle_again = Some 0
   \<and> pa_calls (snd (stop_recording None None idle_again)) =
       [pa_open, pa_stop_stream 0, pa_close 0, pa_stop_stream 0, pa_close 0]
   \<and> threads (snd (stop_recording None None idle_again)) =
       [LoadModel, RecordAudio, ProcessAudio, ProcessAudio]
   \<and> fst (stop_recording None (Some (lit ''closed'')) idle_again) = Some (lit ''closed'')
   \<and> pa_calls (snd (stop_recording None (Some (lit ''closed'')) idle_again)) =
       [pa_open, pa_stop_stream 0, pa_close 0, pa_stop_stream 0, pa_close 0]
   \<and> threads (snd (stop_recording None (Some (lit ''closed'')) idle_again)) =
       [LoadModel, RecordAudio, ProcessAudio]
   \<and> fst (stop_recording (Some (lit ''closed'')) None idle_again) = Some (lit ''closed'')
   \<and> pa_calls (snd (stop_recording (Some (lit ''closed'')) None idle_again)) =
       [pa_open, pa_stop_stream 0, pa_close 0, pa_stop_stream 0]"
  using stop_recording_while_idle [of ready None None 100 io_ok "Inr (lit ''hallo'')" "Inr 0"]
    stop_recording_while_idle [of idle_again None None 100 io_ok "Inr (lit ''hallo'')" "Inr 0"]
    stop_recording_while_idle
      [of idle_again None "Some (lit ''closed'')" 100 io_ok "Inr (lit ''hallo'')" "Inr 0"]
    stop_recording_while_idle
      [of idle_again "Some (lit ''closed'')" None 100 io_ok "Inr (lit ''hallo'')" "Inr 0"]
  by (simp add: idle_again_eq capturing_eq ready_eq init_def)

text \<open>
  C7. In every state in which no model instance is loaded, \<open>start_recording\<close> only
  shows the warning "Please wait for the model to load first.": the state is otherwise
  unchanged, so the recording flag keeps its value (Idle stays Idle), the buffer and
  the stream are untouched, \<open>audio.open\<close> is not called and no thread is started.
\<close>

theorem start_recording_not_ready:
  assumes "model s = None"
  shows "start_recording open_res s =
           s\<lparr>dialogs := dialogs s @
                [showwarning (lit ''Warning'') (lit ''Please wait for the model to load first.'')]\<rparr>
         \<and> recording (start_recording open_res s) = recording s
         \<and> frames (start_recording open_res s) = frames s
         \<and> stream (start_recording open_res s) = stream s
         \<and> pa_calls (start_recording open_res s) = pa_calls s
         \<and> threads (start_recording open_res s) = threads s"
  using assms by (simp add: start_recording_def)

theorem start_recording_not_ready_witness:
  "model init = None \<and> recording init = False
   \<and> start_recording (Inr 0) init =
       init\<lparr>dialogs :=
              [showwarning (lit ''Warning'') (lit ''Please wait for the model to load first.'')]\<rparr>
   \<and> recording (start_recording (Inr 0) init) = False
   \<and> frames (start_recording (Inr 0) init) = []
   \<and> stream (start_recording (Inr 0) init) = None
   \<and> pa_calls (start_recording (Inr 0) init) = []
   \<and> threads (start_recording (Inr 0) init) = [LoadModel]"
  using start_recording_not_ready [of init "Inr 0"] by (simp add: init_def)

section \<open>Changing the model\<close>

text \<open>
  C9. Selecting the size that is already selected changes nothing but the combo box
  variable: the instance is kept and no loader thread is started. Selecting another
  size stores it, discards the instance and starts one loader thread. Selecting is
  idempotent, and so is \<open>on_model_change\<close>; a loader that then runs to the end installs
  an instance of the selected size.
\<close>

theorem select_model_idempotent:
  "select_model v s =
     (if v = model_size s then s\<lparr>model_var := v\<rparr>
      else s\<lparr>model_var := v, model_size := v, model := None,
             threads := threads s @ [LoadModel]\<rparr>)
   \<and> select_model v (select_model v s) = select_model v s
   \<and> on_model_change (on_model_change s) = on_model_change s
   \<and> model (load_model None (select_model v s)) = Some (WhisperModel v)"
  by (simp add: select_model_def on_model_change_def load_whisper_model_def load_model_def
        Let_def)

section \<open>Capturing audio\<close>







section \<open>The worker and its artifact\<close>

text \<open>
  C3, as the specification states it, fails: the name is made from the clock read when
  the worker runs, cut to whole seconds. Two sessions recorded one after the other (the
  read in flight at each stop raising on the closed stream), whose workers read the
  clock at 100.3 and at 100.7 seconds, both write \<open>recordings/100.wav\<close>, and the
  second artifact replaces the first.
\<close>

theorem artifact_name_collision_counterexample:
  "(1003 / 10 :: real) \<noteq> 1007 / 10
   \<and> temp_filename (1003 / 10) = lit ''recordings/100.wav''
   \<and> temp_filename (1007 / 10) = lit ''recordings/100.wav''
   \<and> files (session 0 [[1, 2]] (Inl (lit ''closed'')) before_worker (1003 / 10) (lit ''een'')
              ready)
           (lit ''recordings/100.wav'')
       = Some (wav_of [1, 2])
   \<and> files (session 1 [[3, 4]] (Inl (lit ''closed'')) before_worker (1007 / 10) (lit ''twee'')
              (session 0 [[1, 2]] (Inl (lit ''closed'')) before_worker (1003 / 10) (lit ''een'')
                 ready))
           (lit ''recordings/100.wav'')
       = Some (wav_of [3, 4])"
proof -
  have m: "model ready \<noteq> None" by (simp add: ready_eq)
  have m': "model (session 0 [[1, 2]] (Inl (lit ''closed'')) before_worker (1003 / 10)
                     (lit ''een'') ready) \<noteq> None"
    using m by (simp add: session_raise(3))
  show ?thesis
    using session_raise(1) [OF m, of 0 "[[1, 2]]" "lit ''closed''" before_worker "1003 / 10"
        "lit ''een''"]
      session_raise(1) [OF m', of 1 "[[3, 4]]" "lit ''closed''" before_worker "1007 / 10"
        "lit ''twee''"]
    by (simp add: temp_filename_100)
qed

text \<open>
  C3, amended. The artifact of a session is written under the name
  \<open>recordings/<n>.wav\<close>, \<open>n\<close> being the clock reading taken when the transcription worker
  runs (not when the session was created), cut to whole seconds. The artifacts of two
  sessions have the same name exactly when those whole seconds are the same; sessions
  whose workers run in different seconds never collide.
\<close>

theorem artifact_name_by_second:
  "(temp_filename t1 = temp_filename t2) = (py_int t1 = py_int t2)
   \<and> temp_filename t1 = lit ''recordings/'' @ str_int (py_int t1) @ lit ''.wav''
   \<and> files (process_audio t1 io_ok tr s) (temp_filename t1) = Some (wav_of (concat (frames s)))"
proof -
  have "(temp_filename t1 = temp_filename t2) = (py_int t1 = py_int t2)"
    using str_int_inj by (auto simp: temp_filename_eq)
  then show ?thesis
    using temp_filename_eq [of t1] artifact_written [of t1 tr s] by blast
qed

text \<open>
  C4, as the specification states it, fails: the queue carries plain strings, and the
  only mark of a failure is the prefix \<open>Error:\<close>. A transcription that succeeds with the
  text " Error: stop " puts the one entry "Error: stop" on the queue, which the consumer
  shows as a transcription error and does not add to the transcript: no \<open>Ok\<close> is
  delivered.
\<close>

theorem success_taken_as_error_counterexample:
  "fst (process_audio_try 100 io_ok (Inr (lit '' Error: stop '')) ready) = None
   \<and> transcription_queue (process_audio 100 io_ok (Inr (lit '' Error: stop '')) ready)
       = [lit ''Error: stop'']
   \<and> startswith (lit ''Error: stop'') (lit ''Error:'')
   \<and> dialogs (check_transcription_queue
        (process_audio 100 io_ok (Inr (lit '' Error: stop '')) ready))
       = [showerror (lit ''Transcription Error'') (lit ''Error: stop'')]
   \<and> text_area (check_transcription_queue
        (process_audio 100 io_ok (Inr (lit '' Error: stop '')) ready)) = []"
  by (simp add: process_audio_def process_audio_try_def ready_eq init_def strip_def isspace_def
        lit_def startswith_def check_transcription_queue_def Let_def drain_is_fold
        apply_transcription_def)

text \<open>
  C4, amended. Whatever happens, the worker returns without raising and puts exactly one
  entry on the queue. When creating the directory, opening or writing the file, or the
  engine fails, or no model is loaded, the entry is \<open>Error: \<close> followed by the message,
  which starts with \<open>Error:\<close> and so is always taken as a failure, never as a result.
  On success the entry is the recognized text with its leading and trailing white space
  removed, and nothing else removed; the consumer takes it as a result unless the trimmed
  text itself starts with \<open>Error:\<close>.
\<close>

theorem worker_pushes_one_result:
  "transcription_queue (process_audio now (makedirs_fails e) tr s)
     = transcription_queue s @ [lit ''Error: '' @ e]
   \<and> transcription_queue (process_audio now (open_fails e) tr s)
       = transcription_queue s @ [lit ''Error: '' @ e]
   \<and> transcription_queue (process_audio now (write_fails e part) tr s)
       = transcription_queue s @ [lit ''Error: '' @ e]
   \<and> transcription_queue (process_audio now io_ok tr (s\<lparr>model := None\<rparr>))
       = transcription_queue s @ [lit ''Error: '' @ attribute_error]
   \<and> transcription_queue (process_audio now io_ok (Inl e) (s\<lparr>model := Some m\<rparr>))
       = transcription_queue s @ [lit ''Error: '' @ e]
   \<and> transcription_queue (process_audio now io_ok (Inr x) (s\<lparr>model := Some m\<rparr>))
       = transcription_queue s @ [strip x]
   \<and> length (transcription_queue (process_audio now io tr s))
       = Suc (length (transcription_queue s))
   \<and> startswith (lit ''Error: '' @ e) (lit ''Error:'')
   \<and> dropWhile isspace (strip x) = strip x
   \<and> dropWhile isspace (rev (strip x)) = rev (strip x)
   \<and> x = takeWhile isspace x @ strip x @ rev (takeWhile isspace (rev (dropWhile isspace x)))
   \<and> dialogs (apply_transcription (strip x) a) =
       (if startswith (strip x) (lit ''Error:'')
        then dialogs a @ [showerror (lit ''Transcription Error'') (strip x)]
        else dialogs a)"
proof -
  have fails:
    "transcription_queue (process_audio now (makedirs_fails e) tr s)
       = transcription_queue s @ [lit ''Error: '' @ e]"
    "transcription_queue (process_audio now (open_fails e) tr s)
       = transcription_queue s @ [lit ''Error: '' @ e]"
    "transcription_queue (process_audio now (write_fails e part) tr s)
       = transcription_queue s @ [lit ''Error: '' @ e]"
    by (simp_all add: process_audio_def process_audio_try_def)
  have engine:
    "transcription_queue (process_audio now io_ok tr (s\<lparr>model := None\<rparr>))
       = transcription_queue s @ [lit ''Error: '' @ attribute_error]"
    "transcription_queue (process_audio now io_ok (Inl e) (s\<lparr>model := Some m\<rparr>))
       = transcription_queue s @ [lit ''Error: '' @ e]"
    "transcription_queue (process_audio now io_ok (Inr x) (s\<lparr>model := Some m\<rparr>))
       = transcription_queue s @ [strip x]"
    by (simp_all add: process_audio_def process_audio_try_def Let_def)
  have tagged: "startswith (lit ''Error: '' @ e) (lit ''Error:'')"
    by (simp add: startswith_def lit_def)
  have shown: "dialogs (apply_transcription (strip x) a) =
       (if startswith (strip x) (lit ''Error:'')
        then dialogs a @ [showerror (lit ''Transcription Error'') (strip x)]
        else dialogs a)"
    by (simp add: apply_transcription_def Let_def)
  show ?thesis
    using fails engine tagged shown process_audio_pushes_one [of now io tr s]
      strip_no_leading [of x] strip_no_trailing [of x] strip_decomposition [of x]
    by blast
qed

section \<open>Polling the queue\<close>


text \<open>
  C10. The consumer shows an entry as a transcription error exactly when it starts with
  \<open>Error:\<close>, and then leaves the transcript as it is; otherwise it appends the entry.
  So when the engine succeeds with a text that, once trimmed, starts with \<open>Error:\<close>,
  the worker's try block ends without an exception, yet the poll that follows shows the
  text as an error, sets the status to "Transcription failed" and does not append it.
\<close>

theorem error_prefix_decides:
  assumes "model s = Some m"
    and "startswith (strip x) (lit ''Error:'')"
    and "transcription_queue s = []"
  shows "(dialogs (apply_transcription t a) =
            dialogs a @ [showerror (lit ''Transcription Error'') t])
          = startswith t (lit ''Error:'')
    \<and> text_area (apply_transcription t a) =
        (if startswith t (lit ''Error:'') then text_area a
         else text_area a @ (if strip (text_area a @ [10]) \<noteq> [] then [10, 10] else []) @ t)
    \<and> fst (process_audio_try now io_ok (Inr x) s) = None
    \<and> transcription_queue (process_audio now io_ok (Inr x) s) = [strip x]
    \<and> text_area (check_transcription_queue (process_audio now io_ok (Inr x) s)) = text_area s
    \<and> dialogs (check_transcription_queue (process_audio now io_ok (Inr x) s)) =
        dialogs s @ [showerror (lit ''Transcription Error'') (strip x)]
    \<and> status_label (check_transcription_queue (process_audio now io_ok (Inr x) s)) =
        lit ''Transcription failed''"
proof -
  have classify: "(dialogs (apply_transcription t a) =
            dialogs a @ [showerror (lit ''Transcription Error'') t])
          = startswith t (lit ''Error:'')"
    by (simp add: apply_transcription_def Let_def)
  have appended: "text_area (apply_transcription t a) =
        (if startswith t (lit ''Error:'') then text_area a
         else text_area a @ (if strip (text_area a @ [10]) \<noteq> [] then [10, 10] else []) @ t)"
    by (simp add: apply_transcription_def Let_def)
  let ?p = "process_audio now io_ok (Inr x) s"
  from assms(1) have ok: "fst (process_audio_try now io_ok (Inr x) s) = None"
    by (simp add: process_audio_try_def Let_def)
  from assms(1,3) have p:
    "?p = s\<lparr>files := (files s)(temp_filename now \<mapsto> wav_of (concat (frames s))),
           transcription_queue := [strip x]\<rparr>"
    by (simp add: process_audio_def process_audio_try_def Let_def)
  have polled: "check_transcription_queue ?p =
      (apply_transcription (strip x) (?p\<lparr>transcription_queue := []\<rparr>))
        \<lparr>scheduled := scheduled s + 1\<rparr>"
    by (simp add: check_transcription_queue_def Let_def drain_is_fold p
          apply_transcription_keeps)
  from assms(2) have
    "text_area (check_transcription_queue ?p) = text_area s"
    "dialogs (check_transcription_queue ?p) =
        dialogs s @ [showerror (lit ''Transcription Error'') (strip x)]"
    "status_label (check_transcription_queue ?p) = lit ''Transcription failed''"
    unfolding polled by (simp_all add: apply_transcription_def p)
  with classify appended ok p show ?thesis by simp
qed

theorem error_prefix_decides_witness:
  "model ready = Some (WhisperModel (lit ''base''))
   \<and> startswith (strip (lit ''Error: geen sein '')) (lit ''Error:'')
   \<and> transcription_queue ready = []
   \<and> fst (process_audio_try 100 io_ok (Inr (lit ''Error: geen sein '')) ready) = None
   \<and> transcription_queue (process_audio 100 io_ok (Inr (lit ''Error: geen sein '')) ready)
       = [lit ''Error: geen sein'']
   \<and> text_area (check_transcription_queue
         (process_audio 100 io_ok (Inr (lit ''Error: geen sein '')) ready)) = []
   \<and> dialogs (check_transcription_queue
         (process_audio 100 io_ok (Inr (lit ''Error: geen sein '')) ready))
       = [showerror (lit ''Transcription Error'') (lit ''Error: geen sein'')]
   \<and> status_label (check_transcription_queue
         (process_audio 100 io_ok (Inr (lit ''Error: geen sein '')) ready))
       = lit ''Transcription failed''"
proof -
  have m: "model ready = Some (WhisperModel (lit ''base''))" by (simp add: ready_eq)
  have st: "strip (lit ''Error: geen sein '') = lit ''Error: geen sein''"
    by (simp add: strip_def isspace_def lit_def)
  have p: "startswith (strip (lit ''Error: geen sein '')) (lit ''Error:'')"
    by (simp add: st) (simp add: startswith_def lit_def)
  have q: "transcription_queue ready = []" by (simp add: ready_eq init_def)
  show ?thesis
    using m p q error_prefix_decides [OF m p q, of _ _ 100]
    by (simp add: st) (simp add: ready_eq init_def)
qed

end
